theory Spec2Isabelle
  imports Main
begin

section \<open>The clipboard-copy control\<close>

text \<open>
  \<^verbatim>\<open>CopyToClipboard\<close> (the Hero component's file) keeps one piece of React state,
  \<^verbatim>\<open>const [show, setShow] = useState(false)\<close>, and one handler:
  \<^verbatim>\<open>
  const handleClick = () => {
    navigator.clipboard.writeText(text.contact)
    setShow(!show)
    setTimeout(() => { setShow(false) }, 3000)
  }
  \<close>
  The embedding passes the state explicitly. Besides \<open>show\<close> the state holds what the
  handler touches outside the component: the system clipboard, and the browser's timer
  queue together with a clock in milliseconds. Every queued timer carries the same callback
  \<^verbatim>\<open>() => setShow(false)\<close>, so the queue is the list of deadlines, oldest first.
  A click is a discrete event: React has re-rendered before the next one is dispatched, so
  the \<open>show\<close> that the handler closes over is the current state.
\<close>

record text_prop =
  contact :: string
  type :: string

record copy_state =
  "show" :: bool
  clock :: nat
  pending :: "nat list"
  clipboard :: string

text \<open>
  \<^verbatim>\<open>navigator.clipboard.writeText\<close> is the platform's: it returns a promise that the
  platform resolves (the clipboard now holds the string) or rejects (the clipboard is
  untouched). The handler drops the promise, so the outcome is an input of the model.
\<close>

datatype outcome = Resolved | Rejected

definition writeText :: "string \<Rightarrow> outcome \<Rightarrow> copy_state \<Rightarrow> copy_state" where
  "writeText str r s = (case r of Resolved \<Rightarrow> s\<lparr>clipboard := str\<rparr> | Rejected \<Rightarrow> s)"

definition setShow :: "bool \<Rightarrow> copy_state \<Rightarrow> copy_state" where
  "setShow b s = s\<lparr>show := b\<rparr>"

definition setTimeout :: "nat \<Rightarrow> copy_state \<Rightarrow> copy_state" where
  "setTimeout delay s = s\<lparr>pending := pending s @ [clock s + delay]\<rparr>"

definition handleClick :: "text_prop \<Rightarrow> outcome \<Rightarrow> copy_state \<Rightarrow> copy_state" where
  "handleClick text r s =
     (let shown = show s;
          s1 = writeText (contact text) r s;
          s2 = setShow (\<not> shown) s1
      in setTimeout 3000 s2)"

text \<open>The callback of every timer: \<^verbatim>\<open>() => { setShow(false) }\<close>.\<close>

definition timeout_callback :: "copy_state \<Rightarrow> copy_state" where
  "timeout_callback s = setShow False s"

text \<open>
  \<open>d\<close> milliseconds pass: the clock advances, and every timer whose deadline has been
  reached leaves the queue and runs its callback, oldest first.
\<close>

definition elapse :: "nat \<Rightarrow> copy_state \<Rightarrow> copy_state" where
  "elapse d s =
     (let t = clock s + d;
          due = filter (\<lambda>x. x \<le> t) (pending s);
          s1 = s\<lparr>clock := t, pending := filter (\<lambda>x. \<not> x \<le> t) (pending s)\<rparr>
      in fold (\<lambda>_. timeout_callback) due s1)"

datatype event = Click outcome | Elapse nat

fun step :: "text_prop \<Rightarrow> copy_state \<Rightarrow> event \<Rightarrow> copy_state" where
  "step text s (Click r) = handleClick text r s"
| "step text s (Elapse d) = elapse d s"

definition run :: "text_prop \<Rightarrow> copy_state \<Rightarrow> event list \<Rightarrow> copy_state" where
  "run text s evs = foldl (step text) s evs"

text \<open>The time that passes in a sequence of events, in milliseconds.\<close>

fun elapsed :: "event list \<Rightarrow> nat" where
  "elapsed [] = 0"
| "elapsed (Click r # evs) = elapsed evs"
| "elapsed (Elapse d # evs) = d + elapsed evs"

text \<open>The mounted component: \<^verbatim>\<open>useState(false)\<close>, no timer queued, any clipboard content.\<close>

definition initial :: "string \<Rightarrow> copy_state" where
  "initial c = \<lparr>show = False, clock = 0, pending = [], clipboard = c\<rparr>"

text \<open>The one use of the control, in \<^verbatim>\<open>Hero\<close>.\<close>

definition Hero_text :: text_prop where
  "Hero_text = \<lparr>contact = ''ananthanandanan@gmail.com'', type = ''Email''\<rparr>"

section \<open>The static tables\<close>

text \<open>
  The three hand-written tables, entry by entry as the source has them: \<^verbatim>\<open>Tools\<close>,
  \<^verbatim>\<open>projectsData\<close> (data/projectsData.js) and \<^verbatim>\<open>skills\<close> (components/Skills.js).
  The field \<^verbatim>\<open>id\<close> of a tool is \<open>id_tool\<close> here, \<open>id\<close> being HOL's identity function.
  A template literal that runs over a line break holds the line feed, written \<open>\<newline>\<close>.
\<close>

record tool =
  id_tool :: string
  category :: "string list"
  link :: string
  labels :: "string list"
  name :: string
  description :: string

definition Tools :: "tool list" where
  "Tools = [
   \<lparr>id_tool = ''vscode'',
    category = [''mac''],
    link = ''https://code.visualstudio.com/'',
    labels = [''Editor''],
    name = ''Visual Studio Code'',
    description = ''A lightweight code editor with plenty of plugins.''\<rparr>,
   \<lparr>id_tool = ''discord'',
    category = [''mac'', ''ios'', ''web''],
    link = ''https://discord.com'',
    labels = [''Voice Chat''],
    name = ''Discord'',
    description = ''A voice chat app.''\<rparr>,
   \<lparr>id_tool = ''appcleaner'',
    category = [''mac''],
    link = ''https://freemacsoft.net/appcleaner/'',
    labels = [''Utility''],
    name = ''AppCleaner'',
    description = ''Uninstalls all the files associated with an app.''\<rparr>,
   \<lparr>id_tool = ''postman'',
    category = [''mac''],
    link = ''https://www.getpostman.com/'',
    labels = [''API Testing''],
    name = ''Postman'',
    description = ''A tool for testing APIs.''\<rparr>,
   \<lparr>id_tool = ''stackoverflow'',
    category = [''web''],
    link = ''https://stackoverflow.com/'',
    labels = [''Questions''],
    name = ''Stack Overflow'',
    description = ''C'mon, we all have questions.''\<rparr>,
   \<lparr>id_tool = ''notion'',
    category = [''web'', ''linux'', ''mac''],
    link = ''https://www.notion.so'',
    labels = [''Organiser''],
    name = ''Notion'',
    description = ''workspace for everything''\<rparr>,
   \<lparr>id_tool = ''trello'',
    category = [''web''],
    link = ''https://www.trello.com'',
    labels = [''Project Board''],
    name = ''Trello'',
    description = ''Manage projects with team''\<rparr>]"

record project =
  title :: string
  description :: string
  imgSrc :: string
  href :: string
  tools :: "string list"

definition projectsData :: "project list" where
  "projectsData = [
   \<lparr>title = ''lazzzy-space'',
    description =
      ''A web app that provides teams to collaborate academically. It is a platform for students to share their ideas and projects with each other.'',
    imgSrc = ''/static/images/projectCards/wavy-website.png'',
    href = ''https://github.com/Akshay3960/lazzzy-space'',
    tools = [''React'', ''Node'', ''MongoDB'', ''Express'', ''Redux'', ''JWT'']\<rparr>,
   \<lparr>title = ''NaWaB bot'',
    description =
      ''This bot is a content curator for the topics related to the networks. Made with python and twitter API, it is the best solution to be updated in the latest technologies, \<newline>    developements and discussion of networks on twitter.'',
    imgSrc = ''/static/images/projectCards/twitter-network.png'',
    href = ''https://github.com/Team-SYNACKd/NaWaB'',
    tools = [''Python'', ''Twitter API'', ''Telegram API'']\<rparr>,
   \<lparr>title = ''CMS'',
    description =
      ''Club Management System (CMS) is django-based web-app which lays framework for the amfoss website, the amfoss webapp, and the amfoss app.'',
    imgSrc = ''/static/images/projectCards/cms.png'',
    href = ''https://gitlab.com/amfoss/amfoss/cms'',
    tools = [''Django'', ''Python'', ''GraphQL+JWT'', ''SQLite3'']\<rparr>,
   \<lparr>title = ''passman'',
    description =
      ''passman is a password manager for commandline written in Javascript'',
    imgSrc = ''/static/images/projectCards/passman.png'',
    href = ''https://github.com/ananthanandanan/passman'',
    tools = [''javascript'']\<rparr>,
   \<lparr>title = ''Umai'',
    description =
      ''Umai is a hotel management system build using java with postgresql as the database system.'',
    imgSrc = ''/static/images/projectCards/hotel-db.png'',
    href = ''https://github.com/ananthanandanan/Hotel-DB'',
    tools = [''Java'', ''JavaFX'', ''Postgres'']\<rparr>,
   \<lparr>title = ''Nav-FT'',
    description =
      ''NAV-FT contains some of the features that we can use to speed up the process of vehicle fitness testing.'',
    imgSrc = ''/static/images/projectCards/nav-ft.png'',
    href = ''https://github.com/Fireboltz/NAV-FT'',
    tools = [''Flutter'', ''Firebase'', ''Python'']\<rparr>]"
text \<open>The icon components that Skills.js imports from react-icons (the one commented out left out).\<close>

datatype icon =
    SiReact | SiTypescript | SiNextdotjs | SiNodedotjs | SiPostgresql | SiGit | SiDjango
  | SiGraphql | SiPython | SiDocker | SiLinux | SiMongodb | SiFastapi | SiCelery | SiRabbitmq
  | SiLangchain | SiMinio | GiTortoise

record skill =
  name :: string
  logo :: icon

definition skills :: "skill list" where
  "skills = [
   \<lparr>name = ''Python'', logo = SiPython\<rparr>,
   \<lparr>name = ''Django'', logo = SiDjango\<rparr>,
   \<lparr>name = ''TypeScript'', logo = SiTypescript\<rparr>,
   \<lparr>name = ''Node.js'', logo = SiNodedotjs\<rparr>,
   \<lparr>name = ''Git'', logo = SiGit\<rparr>,
   \<lparr>name = ''Docker'', logo = SiDocker\<rparr>,
   \<lparr>name = ''Linux'', logo = SiLinux\<rparr>,
   \<lparr>name = ''Nextjs'', logo = SiNextdotjs\<rparr>,
   \<lparr>name = ''PostgreSQL'', logo = SiPostgresql\<rparr>,
   \<lparr>name = ''MongoDB'', logo = SiMongodb\<rparr>,
   \<lparr>name = ''FastAPI'', logo = SiFastapi\<rparr>,
   \<lparr>name = ''Celery'', logo = SiCelery\<rparr>,
   \<lparr>name = ''RabbitMQ'', logo = SiRabbitmq\<rparr>,
   \<lparr>name = ''MinIO'', logo = SiMinio\<rparr>,
   \<lparr>name = ''LangChain'', logo = SiLangchain\<rparr>,
   \<lparr>name = ''Tortoise ORM'', logo = GiTortoise\<rparr>]"

section \<open>React nodes\<close>

text \<open>
  What a component receives as a prop and what it returns: the JavaScript values that can
  stand where a React node can (\<^verbatim>\<open>undefined\<close>, \<^verbatim>\<open>null\<close>, booleans, numbers, strings,
  functions such as event handlers, identified by a number) and elements. An element has
  its type (\<^verbatim>\<open>'a'\<close>, \<^verbatim>\<open>Link\<close>), its props as a map from names to values, and its
  children. Numbers are integers here: fractions and NaN do not occur in what follows.
\<close>

datatype node =
    Undefined | Null | Bool bool | Num int | Str string | Fn nat
  | Element string "string \<rightharpoonup> node" node

text \<open>JavaScript's truthiness, as \<^verbatim>\<open>!children\<close> and \<^verbatim>\<open>href && ...\<close> test it.\<close>

fun truthy :: "node \<Rightarrow> bool" where
  "truthy Undefined = False"
| "truthy Null = False"
| "truthy (Bool b) = b"
| "truthy (Num n) = (n \<noteq> 0)"
| "truthy (Str s) = (s \<noteq> [])"
| "truthy (Fn f) = True"
| "truthy (Element t ps c) = True"

text \<open>The props of an element; any other node has none.\<close>

fun props :: "node \<Rightarrow> (string \<rightharpoonup> node)" where
  "props (Element t ps c) = ps"
| "props n = Map.empty"

section \<open>The tag-label renderer\<close>

text \<open>
  \<^verbatim>\<open>
  const Tag = ({ text }) => {
    return (
      <Link
        href={`/tags/${kebabCase(text)}`}
        className="mx-1 text-sm font-medium uppercase hover:text-primary-600"
      >
        {text.split(' ').join('-')}
      </Link>
    )
  }
  \<close>
  The file is there in three revisions, which differ only in where \<^verbatim>\<open>className\<close> is
  put (on the \<^verbatim>\<open>Link\<close> or on an anchor inside it) and in a \<^verbatim>\<open>legacyBehavior\<close>
  attribute: the address and the label are the same expressions in all three.

  \<^verbatim>\<open>String.prototype.split\<close> with a separator of one character, and
  \<^verbatim>\<open>Array.prototype.join\<close>: splitting the empty string gives one empty piece, and two
  separators in a row give an empty piece between them.
\<close>

fun split :: "string \<Rightarrow> char \<Rightarrow> string list" where
  "split [] sep = [[]]"
| "split (c # cs) sep =
     (if c = sep then [] # split cs sep
      else (case split cs sep of [] \<Rightarrow> [[c]] | w # ws \<Rightarrow> (c # w) # ws))"

fun join :: "string list \<Rightarrow> string \<Rightarrow> string" where
  "join [] sep = []"
| "join [w] sep = w"
| "join (w # ws) sep = w @ sep @ join ws sep"

text \<open>
  Modelled from the spec: the "lowercase" of a slug, which is part of \<^verbatim>\<open>kebabCase\<close>
  below (a module that is not among the sources), one character at a time. Strings are
  lists of 8-bit characters here, and the letters with an upper and a lower case among them
  are the ASCII letters: \<open>A\<close> to \<open>Z\<close> (codes 65 to 90) go to \<open>a\<close> to \<open>z\<close> (32 higher),
  every other character stays.
\<close>

definition lower :: "char \<Rightarrow> char" where
  "lower c = (let n = (of_char c :: nat) in if 65 \<le> n \<and> n \<le> 90 then char_of (n + 32) else c)"

definition toLowerCase :: "string \<Rightarrow> string" where
  "toLowerCase s = map lower s"

text \<open>
  Modelled from the spec: \<^verbatim>\<open>kebabCase\<close>, which \<^verbatim>\<open>Tag\<close> imports from
  \<^verbatim>\<open>@/lib/utils/kebabCase\<close>, a module of the repository that is not among the sources.
  The specification describes the slug as the display string made "lowercase, spaces to
  hyphens": the string is lowered, cut at every space and put together with hyphens, the
  way \<^verbatim>\<open>Tag\<close> itself hyphenates its label.
\<close>

definition kebabCase :: "string \<Rightarrow> string" where
  "kebabCase str = join (split (toLowerCase str) CHR '' '') ''-''"

definition Tag :: "string \<Rightarrow> node" where
  "Tag text =
     Element ''Link''
       [''href'' \<mapsto> Str (''/tags/'' @ kebabCase text),
        ''className'' \<mapsto> Str ''mx-1 text-sm font-medium uppercase hover:text-primary-600'']
       (Str (join (split text CHR '' '') ''-''))"



section \<open>The link component\<close>

text \<open>
  \<^verbatim>\<open>
  const CustomLink = ({ href, onClick, children, ...rest }) => {
    const isInternalLink = href && href.startsWith('/')
    const isAnchorLink = href && href.startsWith('#')
    if (!children) { return null }
    if (isInternalLink) {
      return (
        <Link href={href} passHref legacyBehavior>
          <a onClick={onClick} {...rest}>{children}</a>
        </Link>
      )
    }
    if (isAnchorLink) {
      return (<a href={href} onClick={onClick} {...rest}>{children}</a>)
    }
    return (
      <a target="_blank" rel="noopener noreferrer" href={href} onClick={onClick} {...rest}>
        {children}
      </a>
    )
  }
  \<close>
  The props, as the parameter list takes them apart: \<open>href\<close> is the address, a string,
  or absent (\<open>None\<close>); \<open>onClick\<close> and \<open>children\<close> are any value; \<open>rest\<close> holds the
  props of every other name. In JSX a later attribute overrides an earlier one of the same
  name, so the spread \<^verbatim>\<open>{...rest}\<close>, written last, is a map addition with \<open>rest\<close> on
  the right.
\<close>

record link_props =
  href :: "string option"
  onClick :: node
  children :: node
  rest :: "string \<rightharpoonup> node"

definition startsWith :: "string \<Rightarrow> string \<Rightarrow> bool" where
  "startsWith s p = (take (length p) s = p)"

text \<open>The value of the expression \<^verbatim>\<open>href\<close> where it is handed on as an attribute.\<close>

definition href_value :: "link_props \<Rightarrow> node" where
  "href_value p = (case href p of None \<Rightarrow> Undefined | Some h \<Rightarrow> Str h)"

definition CustomLink :: "link_props \<Rightarrow> node" where
  "CustomLink p =
     (let isInternalLink = (case href p of None \<Rightarrow> False | Some h \<Rightarrow> h \<noteq> [] \<and> startsWith h ''/'');
          isAnchorLink = (case href p of None \<Rightarrow> False | Some h \<Rightarrow> h \<noteq> [] \<and> startsWith h ''#'')
      in if \<not> truthy (children p) then Null
         else if isInternalLink then
           Element ''Link''
             [''href'' \<mapsto> href_value p, ''passHref'' \<mapsto> Bool True, ''legacyBehavior'' \<mapsto> Bool True]
             (Element ''a'' ([''onClick'' \<mapsto> onClick p] ++ rest p) (children p))
         else if isAnchorLink then
           Element ''a'' ([''href'' \<mapsto> href_value p, ''onClick'' \<mapsto> onClick p] ++ rest p) (children p)
         else
           Element ''a''
             ([''target'' \<mapsto> Str ''_blank'', ''rel'' \<mapsto> Str ''noopener noreferrer'',
               ''href'' \<mapsto> href_value p, ''onClick'' \<mapsto> onClick p] ++ rest p)
             (children p))"

text \<open>
  \<open>CustomLink\<close> above takes the address as the string it is meant to be. JavaScript
  does not hold a caller to that: the props are an object with any value under any name,
  and lines 4 and 5 call \<^verbatim>\<open>href.startsWith\<close> on whatever truthy value \<^verbatim>\<open>href\<close> is,
  before \<^verbatim>\<open>children\<close> is looked at. A value that is not a string has no such method,
  and the call raises a \<^verbatim>\<open>TypeError\<close>. \<open>CustomLink_untyped\<close> is the same function on
  the props object itself: a prop that is absent reads as \<^verbatim>\<open>undefined\<close>, and \<open>rest\<close>
  is the object without the three names that the parameter list takes out.
\<close>

datatype error = TypeError

definition get_prop :: "(string \<rightharpoonup> node) \<Rightarrow> string \<Rightarrow> node" where
  "get_prop ps k = (case ps k of None \<Rightarrow> Undefined | Some v \<Rightarrow> v)"

fun is_string :: "node \<Rightarrow> bool" where
  "is_string (Str s) = True"
| "is_string n = False"

text \<open>
  The expression \<^verbatim>\<open>href && href.startsWith(p)\<close> as the condition it is used for: a
  falsy \<^verbatim>\<open>href\<close> ends it at \<^verbatim>\<open>&&\<close>, a string answers, any other value raises.
\<close>

definition and_startsWith :: "node \<Rightarrow> string \<Rightarrow> error + bool" where
  "and_startsWith h p =
     (if \<not> truthy h then Inr False
      else (case h of Str s \<Rightarrow> Inr (startsWith s p) | _ \<Rightarrow> Inl TypeError))"

definition CustomLink_untyped :: "(string \<rightharpoonup> node) \<Rightarrow> error + node" where
  "CustomLink_untyped ps =
     (let href = get_prop ps ''href'';
          onClick = get_prop ps ''onClick'';
          children = get_prop ps ''children'';
          rest = ps |` (- {''href'', ''onClick'', ''children''})
      in case and_startsWith href ''/'' of
           Inl e \<Rightarrow> Inl e
         | Inr isInternalLink \<Rightarrow>
             (case and_startsWith href ''#'' of
                Inl e \<Rightarrow> Inl e
              | Inr isAnchorLink \<Rightarrow>
                  if \<not> truthy children then Inr Null
                  else if isInternalLink then
                    Inr (Element ''Link''
                      [''href'' \<mapsto> href, ''passHref'' \<mapsto> Bool True, ''legacyBehavior'' \<mapsto> Bool True]
                      (Element ''a'' ([''onClick'' \<mapsto> onClick] ++ rest) children))
                  else if isAnchorLink then
                    Inr (Element ''a'' ([''href'' \<mapsto> href, ''onClick'' \<mapsto> onClick] ++ rest) children)
                  else
                    Inr (Element ''a''
                      ([''target'' \<mapsto> Str ''_blank'', ''rel'' \<mapsto> Str ''noopener noreferrer'',
                        ''href'' \<mapsto> href, ''onClick'' \<mapsto> onClick] ++ rest)
                      children)))"

text \<open>The props object of a call whose address is a string or absent.\<close>

definition props_object :: "link_props \<Rightarrow> (string \<rightharpoonup> node)" where
  "props_object p =
     (rest p |` (- {''href'', ''onClick'', ''children''}))
       (''href'' := (case href p of None \<Rightarrow> None | Some h \<Rightarrow> Some (Str h)),
        ''onClick'' \<mapsto> onClick p, ''children'' \<mapsto> children p)"

section \<open>Properties of the clipboard-copy control\<close>

lemma handleClick_show: "show (handleClick text r s) = (\<not> show s)"
  by (cases r) (simp_all add: handleClick_def writeText_def setShow_def setTimeout_def)

lemma handleClick_pending:
  "pending (handleClick text r s) = pending s @ [clock s + 3000]"
  by (cases r) (simp_all add: handleClick_def writeText_def setShow_def setTimeout_def)

lemma handleClick_clock: "clock (handleClick text r s) = clock s"
  by (cases r) (simp_all add: handleClick_def writeText_def setShow_def setTimeout_def)

lemma handleClick_clipboard:
  "clipboard (handleClick text r s) = (case r of Resolved \<Rightarrow> contact text | Rejected \<Rightarrow> clipboard s)"
  by (cases r) (simp_all add: handleClick_def writeText_def setShow_def setTimeout_def)

lemma fold_callback_fields:
  "clock (fold (\<lambda>_. timeout_callback) xs s) = clock s"
  "pending (fold (\<lambda>_. timeout_callback) xs s) = pending s"
  "clipboard (fold (\<lambda>_. timeout_callback) xs s) = clipboard s"
  by (induction xs arbitrary: s) (simp_all add: timeout_callback_def setShow_def)

lemma fold_callback_show:
  "show (fold (\<lambda>_. timeout_callback) xs s) = (xs = [] \<and> show s)"
proof (induction xs arbitrary: s)
  case Nil
  show ?case by simp
next
  case (Cons x xs)
  have "\<not> show (timeout_callback s)"
    by (simp add: timeout_callback_def setShow_def)
  then show ?case by (simp add: Cons.IH)
qed

lemma elapse_clock: "clock (elapse d s) = clock s + d"
  by (simp add: elapse_def Let_def fold_callback_fields)

lemma elapse_pending: "pending (elapse d s) = filter (\<lambda>x. clock s + d < x) (pending s)"
  by (simp add: elapse_def Let_def fold_callback_fields not_le)

lemma elapse_clipboard: "clipboard (elapse d s) = clipboard s"
  by (simp add: elapse_def Let_def fold_callback_fields)

lemma elapse_show:
  "show (elapse d s) = (show s \<and> (\<forall>x \<in> set (pending s). clock s + d < x))"
  by (auto simp add: elapse_def Let_def fold_callback_show filter_empty_conv not_le)

lemma run_Nil: "run text s [] = s"
  by (simp add: run_def)

lemma run_snoc: "run text s (evs @ [e]) = step text (run text s evs) e"
  by (simp add: run_def)

lemma run_Cons: "run text s (e # evs) = run text (step text s e) evs"
  by (simp add: run_def)

lemma run_elapse_clock:
  "clock (run text s (map Elapse ds)) = clock s + sum_list ds"
  by (induction ds arbitrary: s) (simp_all add: run_Nil run_Cons elapse_clock)

lemma run_elapse_pending_future:
  assumes "ds \<noteq> []"
  shows "\<forall>x \<in> set (pending (run text s (map Elapse ds))). clock (run text s (map Elapse ds)) < x"
proof -
  from assms obtain es d where ds: "ds = es @ [d]"
    by (cases ds rule: rev_cases) auto
  show ?thesis
    by (simp add: ds run_snoc elapse_pending elapse_clock)
qed

lemma elapse_keeps_timer_or_hidden:
  assumes "D \<in> set (pending s) \<or> \<not> show s"
  shows "D \<in> set (pending (elapse d s)) \<or> \<not> show (elapse d s)"
  using assms by (auto simp add: elapse_show elapse_pending)

lemma run_elapse_keeps_timer_or_hidden:
  "D \<in> set (pending s) \<or> \<not> show s \<Longrightarrow>
   D \<in> set (pending (run text s (map Elapse ds))) \<or> \<not> show (run text s (map Elapse ds))"
proof (induction ds arbitrary: s)
  case Nil
  then show ?case by (simp add: run_Nil)
next
  case (Cons d ds)
  from Cons.prems have "D \<in> set (pending (elapse d s)) \<or> \<not> show (elapse d s)"
    by (rule elapse_keeps_timer_or_hidden)
  then show ?case by (simp add: run_Cons Cons.IH)
qed

lemma hidden_after_timeout:
  assumes "3000 \<le> sum_list ds"
  shows "\<not> show (run text (handleClick text r s) (map Elapse ds))"
proof -
  let ?s0 = "handleClick text r s"
  let ?D = "clock s + 3000"
  let ?f = "run text ?s0 (map Elapse ds)"
  have "?D \<in> set (pending ?s0)" by (simp add: handleClick_pending)
  then have inv: "?D \<in> set (pending ?f) \<or> \<not> show ?f"
    by (intro run_elapse_keeps_timer_or_hidden) simp
  from assms have ne: "ds \<noteq> []" by auto
  have "clock ?f = clock s + sum_list ds"
    by (simp add: run_elapse_clock handleClick_clock)
  with assms have "?D \<le> clock ?f" by simp
  moreover have "\<forall>x \<in> set (pending ?f). clock ?f < x"
    using ne by (rule run_elapse_pending_future)
  ultimately have "?D \<notin> set (pending ?f)" by auto
  with inv show ?thesis by simp
qed

lemma no_click_no_show:
  "\<not> show s \<Longrightarrow> \<forall>r. Click r \<notin> set evs \<Longrightarrow> \<not> show (run text s evs)"
proof (induction evs arbitrary: s)
  case Nil
  then show ?case by (simp add: run_Nil)
next
  case (Cons e evs)
  from Cons.prems(2) obtain d where e: "e = Elapse d"
    by (cases e) auto
  from Cons.prems(1) have "\<not> show (step text s e)"
    by (simp add: e elapse_show)
  moreover from Cons.prems(2) have "\<forall>r. Click r \<notin> set evs" by simp
  ultimately show ?case by (simp add: run_Cons Cons.IH)
qed

lemma run_append: "run text s (evs @ evs') = run text (run text s evs) evs'"
  by (simp add: run_def)

lemma step_clock: "clock (step text s e) = clock s + elapsed [e]"
  by (cases e) (simp_all add: handleClick_clock elapse_clock)

lemma run_clock: "clock (run text s evs) = clock s + elapsed evs"
proof (induction evs arbitrary: s)
  case Nil
  show ?case by (simp add: run_Nil)
next
  case (Cons e evs)
  show ?case
    by (cases e) (simp_all add: run_Cons Cons.IH handleClick_clock elapse_clock)
qed

lemma step_keeps_timer:
  assumes "D \<in> set (pending s)" and "clock s + elapsed [e] < D"
  shows "D \<in> set (pending (step text s e))"
  using assms by (cases e) (simp_all add: handleClick_pending elapse_pending)

lemma run_keeps_timer:
  "D \<in> set (pending s) \<Longrightarrow> clock s + elapsed evs < D \<Longrightarrow> D \<in> set (pending (run text s evs))"
proof (induction evs arbitrary: s)
  case Nil
  then show ?case by (simp add: run_Nil)
next
  case (Cons e evs)
  have el: "elapsed (e # evs) = elapsed [e] + elapsed evs"
    by (cases e) simp_all
  from Cons.prems el have "D \<in> set (pending (step text s e))"
    by (intro step_keeps_timer) simp_all
  moreover from Cons.prems el have "clock (step text s e) + elapsed evs < D"
    by (simp add: step_clock)
  ultimately show ?case
    by (simp add: run_Cons Cons.IH)
qed

lemma hidden_at_deadline:
  assumes before: "elapsed evs < 3000" and reached: "3000 \<le> elapsed evs + d"
  shows "\<not> show (run text (handleClick text r s) (evs @ Elapse d # map Elapse ds))"
proof -
  let ?s0 = "handleClick text r s"
  let ?D = "clock s + 3000"
  let ?s1 = "run text ?s0 evs"
  have "?D \<in> set (pending ?s0)"
    by (simp add: handleClick_pending)
  moreover from before have "clock ?s0 + elapsed evs < ?D"
    by (simp add: handleClick_clock)
  ultimately have queued: "?D \<in> set (pending ?s1)"
    by (rule run_keeps_timer)
  have "clock ?s1 = clock s + elapsed evs"
    by (simp add: run_clock handleClick_clock)
  with reached have "\<not> clock ?s1 + d < ?D"
    by simp
  with queued have "\<not> show (elapse d ?s1)"
    by (auto simp add: elapse_show)
  then have "\<not> show (run text (elapse d ?s1) (map Elapse ds))"
    by (rule no_click_no_show) auto
  then show ?thesis
    by (simp add: run_append run_Cons)
qed

text \<open>
  C1, as the specification states it: after every activation the flag is true, also after
  an activation while the acknowledgment is showing. The handler sets the flag to the
  negation of what it was: one second after a first click the acknowledgment is showing,
  and a second click at that moment hides it.
\<close>

theorem click_while_showing_hides:
  "show (run Hero_text (initial '''') [Click Resolved, Elapse 1000]) \<and>
   \<not> show (run Hero_text (initial '''') [Click Resolved, Elapse 1000, Click Resolved])"
  by (simp add: run_def initial_def handleClick_def writeText_def setShow_def setTimeout_def
      elapse_def timeout_callback_def Hero_text_def)

text \<open>
  C1, amended: an activation sets the flag to the negation of its value before, so the
  flag is true right after an activation made while the acknowledgment was hidden, and
  false right after one made while it was showing. The other half stands for every
  activation: when the 3000 ms of an activation have passed, the flag is false, whatever
  the state in which the activation happened and whatever was clicked in the meantime,
  and it stays false for as long as nothing is clicked.
\<close>

theorem handleClick_toggles_and_times_out:
  "show (handleClick text r s) = (\<not> show s) \<and>
   (elapsed evs < 3000 \<and> 3000 \<le> elapsed evs + d \<longrightarrow>
      \<not> show (run text (handleClick text r s) (evs @ Elapse d # map Elapse ds))) \<and>
   (3000 \<le> sum_list ds \<longrightarrow> \<not> show (run text (handleClick text r s) (map Elapse ds)))"
  by (simp add: handleClick_show hidden_at_deadline hidden_after_timeout)

theorem handleClick_toggles_and_times_out_witness:
  "show (handleClick Hero_text Resolved (initial '''')) \<and>
   elapsed [Elapse 1000, Click Rejected, Elapse 500, Click Resolved] < 3000 \<and>
   3000 \<le> elapsed [Elapse 1000, Click Rejected, Elapse 500, Click Resolved] + 1500 \<and>
   \<not> show (run Hero_text (handleClick Hero_text Resolved (initial ''''))
       ([Elapse 1000, Click Rejected, Elapse 500, Click Resolved] @ Elapse 1500 # map Elapse [2000, 1000])) \<and>
   (3000::nat) \<le> sum_list [2000, 1000] \<and>
   \<not> show (run Hero_text (handleClick Hero_text Resolved (initial '''')) (map Elapse [2000, 1000]))"
  using handleClick_toggles_and_times_out [of Hero_text Resolved "initial ''''"
      "[Elapse 1000, Click Rejected, Elapse 500, Click Resolved]" 1500 "[2000, 1000]"]
  by (simp add: initial_def)

text \<open>
  C4: in a state reached from the mounted component by any sequence of activations and
  passages of time (with the timeouts that expire in them), the flag is true only if the
  sequence holds an activation.
\<close>

theorem show_needs_activation:
  "show (run text (initial c) evs) \<Longrightarrow> \<exists>r. Click r \<in> set evs"
  using no_click_no_show [of "initial c" evs "text"] by (auto simp add: initial_def)

theorem show_needs_activation_witness:
  "show (run Hero_text (initial '''') [Elapse 5, Click Rejected]) \<and>
   (\<exists>r. Click r \<in> set [Elapse 5, Click Rejected])"
proof -
  have h: "show (run Hero_text (initial '''') [Elapse 5, Click Rejected])"
    by (simp add: run_def initial_def handleClick_def writeText_def setShow_def setTimeout_def
        elapse_def timeout_callback_def)
  from show_needs_activation [OF h] h show ?thesis by simp
qed

text \<open>
  C5: an activation asks the platform to write \<^verbatim>\<open>text.contact\<close>. When the platform
  resolves the write, the clipboard holds that string, whatever the state of the component
  and of the clipboard before; when it rejects, the clipboard is as it was, so that no
  other string is ever written. In \<^verbatim>\<open>Hero\<close> the string is the e-mail address.
\<close>

theorem handleClick_writes_contact:
  "clipboard (handleClick text Resolved s) = contact text \<and>
   clipboard (handleClick text Rejected s) = clipboard s \<and>
   clipboard (handleClick Hero_text Resolved s) = ''ananthanandanan@gmail.com''"
  by (simp add: handleClick_clipboard Hero_text_def)

text \<open>
  C6: the handler does not look at the outcome of the clipboard write. Resolved or
  rejected, the component is left in the same state: the flag is the negation of what it
  was, and one timeout is queued 3000 ms from now. The component's state has no field for
  an error.
\<close>

theorem handleClick_ignores_outcome:
  "show (handleClick text Resolved s) = show (handleClick text Rejected s) \<and>
   pending (handleClick text Resolved s) = pending (handleClick text Rejected s) \<and>
   clock (handleClick text Resolved s) = clock (handleClick text Rejected s) \<and>
   show (handleClick text r s) = (\<not> show s) \<and>
   pending (handleClick text r s) = pending s @ [clock s + 3000]"
  by (simp add: handleClick_show handleClick_pending handleClick_clock)

section \<open>Properties of the tag-label renderer\<close>

lemma split_not_Nil: "split s sep \<noteq> []"
  by (induction s) (simp_all split: list.splits)

lemma join_Cons: "ws \<noteq> [] \<Longrightarrow> join (w # ws) sep = w @ sep @ join ws sep"
  by (cases ws) simp_all

lemma join_Cons_Cons: "join ((c # w) # ws) sep = c # join (w # ws) sep"
  by (cases ws) simp_all

lemma join_split:
  "join (split s sep) [h] = map (\<lambda>c. if c = sep then h else c) s"
proof (induction s)
  case Nil
  show ?case by simp
next
  case (Cons c cs)
  obtain w ws where sp: "split cs sep = w # ws"
    using split_not_Nil [of cs sep] by (cases "split cs sep") auto
  show ?case
  proof (cases "c = sep")
    case True
    then show ?thesis
      using Cons.IH by (simp add: join_Cons split_not_Nil)
  next
    case False
    then show ?thesis
      using Cons.IH by (simp add: sp join_Cons_Cons)
  qed
qed

lemma of_char_lower:
  "(of_char (lower c) :: nat) = (if 65 \<le> (of_char c :: nat) \<and> (of_char c :: nat) \<le> 90 then of_char c + 32 else of_char c)"
  by (simp add: lower_def Let_def)

lemma lower_idem: "lower (lower c) = lower c"
proof -
  have "\<not> (65 \<le> (of_char (lower c) :: nat) \<and> (of_char (lower c) :: nat) \<le> 90)"
    by (simp add: of_char_lower)
  then have "(if 65 \<le> (of_char (lower c) :: nat) \<and> (of_char (lower c) :: nat) \<le> 90
              then char_of ((of_char (lower c) :: nat) + 32) else lower c) = lower c"
    by (rule if_not_P)
  then show ?thesis
    unfolding lower_def [of "lower c"] Let_def .
qed

lemma lower_space: "lower c = CHR '' '' \<longleftrightarrow> c = CHR '' ''"
proof
  assume "lower c = CHR '' ''"
  then have "(of_char (lower c) :: nat) = 32" by simp
  then have "(of_char c :: nat) = 32"
    by (simp add: of_char_lower split: if_splits)
  then have "(of_char c :: nat) = of_char CHR '' ''"
    by simp
  then show "c = CHR '' ''"
    by (simp only: of_char_eq_iff)
next
  assume "c = CHR '' ''"
  then show "lower c = CHR '' ''" by (simp add: lower_def)
qed

lemma lower_hyphen: "lower CHR ''-'' = CHR ''-''"
  by (simp add: lower_def)

lemma kebabCase_map:
  "kebabCase s = map (\<lambda>c. if c = CHR '' '' then CHR ''-'' else lower c) s"
  by (simp add: kebabCase_def toLowerCase_def join_split lower_space o_def)

text \<open>The label that \<^verbatim>\<open>Tag\<close> shows is its text with every space replaced by a hyphen.\<close>

lemma Tag_label:
  "Tag text =
     Element ''Link'' (props (Tag text)) (Str (map (\<lambda>c. if c = CHR '' '' then CHR ''-'' else c) text))"
  by (simp add: Tag_def join_split)











text \<open>
  C3: the slug is a function of the label alone, so the same label always gives the same
  slug; and the slug of a slug is that slug, so that a tag written as its own slug is
  linked to the same page.
\<close>

theorem kebabCase_idempotent:
  "kebabCase (kebabCase s) = kebabCase s \<and>
   props (Tag (kebabCase s)) ''href'' = props (Tag s) ''href''"
proof -
  have "kebabCase (kebabCase s) = kebabCase s"
    by (simp add: kebabCase_map lower_idem lower_hyphen lower_space)
  then show ?thesis
    by (simp add: Tag_def)
qed

section \<open>Properties of the link component\<close>


lemma and_startsWith_ok:
  "\<not> truthy h \<or> is_string h \<Longrightarrow> \<exists>b. and_startsWith h p = Inr b"
  by (cases h) (auto simp add: and_startsWith_def)

lemma and_startsWith_throws:
  "truthy h \<Longrightarrow> \<not> is_string h \<Longrightarrow> and_startsWith h p = Inl TypeError"
  by (cases h) (simp_all add: and_startsWith_def)

lemma restrict_restrict_others:
  "((m |` (- K))(''href'' := a, ''onClick'' \<mapsto> b, ''children'' \<mapsto> c)) |` (- {''href'', ''onClick'', ''children''})
     = m |` (- K) |` (- {''href'', ''onClick'', ''children''})"
  by (rule ext) (simp add: restrict_map_def)

text \<open>
  On a props object whose address is a string or absent, the function on the object and
  the function on the typed props are the same.
\<close>

lemma CustomLink_untyped_typed:
  assumes "dom (rest p) \<inter> {''href'', ''onClick'', ''children''} = {}"
  shows "CustomLink_untyped (props_object p) = Inr (CustomLink p)"
proof -
  have r: "rest p |` (- {''href'', ''onClick'', ''children''}) = rest p"
    using assms by (intro ext) (auto simp add: restrict_map_def dom_def)
  have rr: "props_object p |` (- {''href'', ''onClick'', ''children''}) = rest p"
    unfolding props_object_def restrict_restrict_others by (simp add: r)
  have g: "get_prop (props_object p) ''href'' = href_value p"
    "get_prop (props_object p) ''onClick'' = onClick p"
    "get_prop (props_object p) ''children'' = children p"
    by (simp_all add: get_prop_def props_object_def href_value_def split: option.splits)
  show ?thesis
    by (cases "href p")
      (simp_all add: CustomLink_untyped_def CustomLink_def Let_def g rr and_startsWith_def href_value_def)
qed

text \<open>
  C9, as stated: \<^verbatim>\<open>CustomLink\<close> returns \<^verbatim>\<open>null\<close> whenever \<^verbatim>\<open>children\<close> is absent,
  for every value of \<^verbatim>\<open>href\<close>. With the number 5 as the address and no children, the
  call of \<^verbatim>\<open>startsWith\<close> raises before the test of the children is reached.
\<close>

theorem CustomLink_untyped_throws:
  "CustomLink_untyped [''href'' \<mapsto> Num 5] = Inl TypeError \<and>
   \<not> truthy (get_prop [''href'' \<mapsto> Num 5] ''children'')"
  by (simp add: CustomLink_untyped_def and_startsWith_def get_prop_def)

text \<open>
  C9, amended: for every address that is a string or falsy (absent, \<^verbatim>\<open>null\<close>, empty)
  and every value of the other props, \<^verbatim>\<open>CustomLink\<close> returns \<^verbatim>\<open>null\<close> whenever
  \<^verbatim>\<open>children\<close> is absent or falsy, and otherwise an anchor around the children, alone
  or inside a \<^verbatim>\<open>Link\<close>. For every address at all, it returns an element only when
  children are given.
\<close>

theorem CustomLink_null_iff_no_children:
  "(\<not> truthy (get_prop ps ''href'') \<or> is_string (get_prop ps ''href'') \<longrightarrow>
      (\<not> truthy (get_prop ps ''children'') \<longrightarrow> CustomLink_untyped ps = Inr Null) \<and>
      (truthy (get_prop ps ''children'') \<longrightarrow>
         (\<exists>as. CustomLink_untyped ps = Inr (Element ''a'' as (get_prop ps ''children''))) \<or>
         (\<exists>ls as. CustomLink_untyped ps =
            Inr (Element ''Link'' ls (Element ''a'' as (get_prop ps ''children'')))))) \<and>
   (\<forall>n. CustomLink_untyped ps = Inr n \<and> n \<noteq> Null \<longrightarrow> truthy (get_prop ps ''children''))"
proof -
  have "\<forall>n. CustomLink_untyped ps = Inr n \<and> n \<noteq> Null \<longrightarrow> truthy (get_prop ps ''children'')"
    by (auto simp add: CustomLink_untyped_def Let_def split: sum.splits if_splits)
  moreover have "CustomLink_untyped ps = Inr Null"
    if "\<not> truthy (get_prop ps ''href'') \<or> is_string (get_prop ps ''href'')"
      and "\<not> truthy (get_prop ps ''children'')"
    using and_startsWith_ok [OF that(1), of "''/''"] and_startsWith_ok [OF that(1), of "''#''"] that(2)
    by (auto simp add: CustomLink_untyped_def Let_def)
  moreover have "(\<exists>as. CustomLink_untyped ps = Inr (Element ''a'' as (get_prop ps ''children''))) \<or>
         (\<exists>ls as. CustomLink_untyped ps =
            Inr (Element ''Link'' ls (Element ''a'' as (get_prop ps ''children''))))"
    if "\<not> truthy (get_prop ps ''href'') \<or> is_string (get_prop ps ''href'')"
      and "truthy (get_prop ps ''children'')"
    using and_startsWith_ok [OF that(1), of "''/''"] and_startsWith_ok [OF that(1), of "''#''"] that(2)
    by (auto simp add: CustomLink_untyped_def Let_def)
  ultimately show ?thesis by blast
qed

theorem CustomLink_null_iff_no_children_witness:
  "is_string (get_prop [''href'' \<mapsto> Str ''/about'', ''children'' \<mapsto> Str ''''] ''href'') \<and>
   \<not> truthy (get_prop [''href'' \<mapsto> Str ''/about'', ''children'' \<mapsto> Str ''''] ''children'') \<and>
   CustomLink_untyped [''href'' \<mapsto> Str ''/about'', ''children'' \<mapsto> Str ''''] = Inr Null \<and>
   \<not> truthy (get_prop [''children'' \<mapsto> Str ''home''] ''href'') \<and>
   truthy (get_prop [''children'' \<mapsto> Str ''home''] ''children'') \<and>
   CustomLink_untyped [''children'' \<mapsto> Str ''home''] \<noteq> Inr Null"
proof -
  let ?a = "[''href'' \<mapsto> Str ''/about'', ''children'' \<mapsto> Str '''']"
  let ?b = "[''children'' \<mapsto> Str ''home'']"
  have a: "is_string (get_prop ?a ''href'')" "\<not> truthy (get_prop ?a ''children'')"
    by (simp_all add: get_prop_def)
  have b: "\<not> truthy (get_prop ?b ''href'')" "truthy (get_prop ?b ''children'')"
    by (simp_all add: get_prop_def)
  from CustomLink_null_iff_no_children [of ?a] a have "CustomLink_untyped ?a = Inr Null"
    by blast
  moreover from CustomLink_null_iff_no_children [of ?b] b have "CustomLink_untyped ?b \<noteq> Inr Null"
    by auto
  ultimately show ?thesis
    using a b by blast
qed




section \<open>Properties of the static tables\<close>

text \<open>
  C7: every tool has a non-empty id, link and name; every project a non-empty title and
  href; every skill a non-empty name. That a tool has a category, labels and a description
  and that a skill has an icon is the type of the entries.
\<close>

theorem tables_required_fields:
  "(\<forall>t \<in> set Tools. id_tool t \<noteq> [] \<and> link t \<noteq> [] \<and> tool.name t \<noteq> []) \<and>
   (\<forall>p \<in> set projectsData. title p \<noteq> [] \<and> project.href p \<noteq> []) \<and>
   (\<forall>k \<in> set skills. skill.name k \<noteq> [])"
  by (simp add: Tools_def projectsData_def skills_def)

theorem tables_required_fields_witness:
  "Tools ! 4 \<in> set Tools \<and> id_tool (Tools ! 4) = ''stackoverflow'' \<and> tool.name (Tools ! 4) \<noteq> [] \<and>
   projectsData ! 1 \<in> set projectsData \<and> title (projectsData ! 1) = ''NaWaB bot'' \<and>
   project.href (projectsData ! 1) \<noteq> [] \<and>
   skills ! 15 \<in> set skills \<and> logo (skills ! 15) = GiTortoise \<and> skill.name (skills ! 15) \<noteq> []"
proof -
  have t: "Tools ! 4 \<in> set Tools"
    by (simp add: Tools_def)
  have p: "projectsData ! 1 \<in> set projectsData"
    by (simp add: projectsData_def)
  have k: "skills ! 15 \<in> set skills"
    by (simp add: skills_def)
  have t': "id_tool (Tools ! 4) = ''stackoverflow''"
    by (simp add: Tools_def)
  have p': "title (projectsData ! 1) = ''NaWaB bot''"
    by (simp add: projectsData_def)
  have k': "logo (skills ! 15) = GiTortoise"
    by (simp add: skills_def)
  from tables_required_fields t p k t' p' k' show ?thesis
    by blast
qed

end
